theory Spec2Isabelle
  imports Complex_Main
begin

section \<open>The student tracker: store, repository and request handlers\<close>

text \<open>
  The program (\<^verbatim>\<open>src/app.py\<close>) keeps two relations in an SQLite file and reaches
  them through Python's \<^verbatim>\<open>sqlite3\<close> module:
  \<^verbatim>\<open>
  CREATE TABLE IF NOT EXISTS students (
      roll_number INTEGER PRIMARY KEY,
      name TEXT NOT NULL)
  CREATE TABLE IF NOT EXISTS grades (
      roll_number INTEGER,
      subject TEXT NOT NULL,
      grade REAL NOT NULL,
      FOREIGN KEY (roll_number) REFERENCES students(roll_number))
  \<close>
  The embedding below models the SQL statements of the class \<^verbatim>\<open>StudentTracker\<close> as
  functions on the content of the two tables, and the two POST handlers that write to
  them. What the model takes from SQLite and from the \<^verbatim>\<open>sqlite3\<close> module:
  \<^item> \<^verbatim>\<open>students.roll_number\<close> is an \<^verbatim>\<open>INTEGER PRIMARY KEY\<close>, the row id of the table:
    it is unique, and a scan of the table without \<^verbatim>\<open>ORDER BY\<close> visits the rows in
    ascending row id. The table is a list of rows kept in that order.
  \<^item> \<^verbatim>\<open>grades\<close> has no declared key; its hidden row id grows with every insert and no row
    is ever deleted, so the list of its rows is kept in insertion order.
  \<^item> The foreign key is declared but never enforced (\<^verbatim>\<open>PRAGMA foreign_keys\<close> is off
    unless a connection turns it on, and the program never does).
  \<^item> An SQLite \<^verbatim>\<open>INTEGER\<close> is a signed 64-bit value; binding a Python integer outside
    that range raises \<^verbatim>\<open>OverflowError\<close> before the statement runs.
  \<^item> A Python float is bound as a \<^verbatim>\<open>REAL\<close>, except NaN, which SQLite stores as
    \<^verbatim>\<open>NULL\<close>: on a \<^verbatim>\<open>NOT NULL\<close> column the insert fails with
    \<^verbatim>\<open>IntegrityError\<close>.
  \<^item> The connection is in the module's default (legacy) transaction mode: a transaction
    is opened implicitly before an \<^verbatim>\<open>INSERT\<close>, \<^verbatim>\<open>commit()\<close> makes the pending
    changes durable and \<^verbatim>\<open>rollback()\<close> discards them. A statement that fails leaves
    the tables as they were before it.

  Scope of the model. A float is a real number, an infinity or NaN; a stored
  \<^verbatim>\<open>REAL\<close> is a real number or an infinity. Comparison and storage of floats are
  modelled; their arithmetic is not: what \<^verbatim>\<open>AVG\<close> computes in double precision
  on a non-empty list of values is a parameter of the model (\<open>avg_double\<close> below).
  Arguments have the Python types the handlers pass: integers for roll numbers, strings
  for names and subjects, floats for grades. Failures of the storage medium (a locked
  or unwritable file) are not modelled.
\<close>

subsection \<open>Data model\<close>

type_synonym student_row = "int \<times> string"
  \<comment> \<open>\<open>(roll_number, name)\<close>\<close>

text \<open>
  A Python float, and a value of an SQLite \<^verbatim>\<open>REAL\<close> column. SQLite has no NaN: it
  keeps \<^verbatim>\<open>NULL\<close> in its place (\<open>None\<close> below). Stored values are ordered as
  floats are, the infinities at the two ends.
\<close>

datatype pyfloat = Finite real | PosInf | NegInf | NaN

datatype sqlreal = SqlNegInf | SqlReal real | SqlPosInf

fun bind_float :: "pyfloat \<Rightarrow> sqlreal option" where
  "bind_float (Finite x) = Some (SqlReal x)"
| "bind_float PosInf = Some SqlPosInf"
| "bind_float NegInf = Some SqlNegInf"
| "bind_float NaN = None"

text \<open>A stored value, read back as the module returns it.\<close>

fun float_of_sql :: "sqlreal \<Rightarrow> pyfloat" where
  "float_of_sql (SqlReal x) = Finite x"
| "float_of_sql SqlPosInf = PosInf"
| "float_of_sql SqlNegInf = NegInf"

instantiation sqlreal :: linorder
begin

fun less_eq_sqlreal :: "sqlreal \<Rightarrow> sqlreal \<Rightarrow> bool" where
  "less_eq_sqlreal SqlNegInf b = True"
| "less_eq_sqlreal (SqlReal x) SqlNegInf = False"
| "less_eq_sqlreal (SqlReal x) (SqlReal y) = (x \<le> y)"
| "less_eq_sqlreal (SqlReal x) SqlPosInf = True"
| "less_eq_sqlreal SqlPosInf SqlPosInf = True"
| "less_eq_sqlreal SqlPosInf b = False"

definition less_sqlreal :: "sqlreal \<Rightarrow> sqlreal \<Rightarrow> bool" where
  "less_sqlreal a b \<longleftrightarrow> a \<le> b \<and> \<not> b \<le> a"

instance
proof
  fix a b c :: sqlreal
  show "(a < b) = (a \<le> b \<and> \<not> b \<le> a)" by (simp add: less_sqlreal_def)
  show "a \<le> a" by (cases a) simp_all
  show "a \<le> b \<Longrightarrow> b \<le> c \<Longrightarrow> a \<le> c"
    by (cases a; cases b; cases c) simp_all
  show "a \<le> b \<Longrightarrow> b \<le> a \<Longrightarrow> a = b"
    by (cases a; cases b) simp_all
  show "a \<le> b \<or> b \<le> a"
    by (cases a; cases b) auto
qed

end

text \<open>The key of \<^verbatim>\<open>ORDER BY ... DESC\<close>: the negated value.\<close>

fun sql_neg :: "sqlreal \<Rightarrow> sqlreal" where
  "sql_neg (SqlReal x) = SqlReal (- x)"
| "sql_neg SqlPosInf = SqlNegInf"
| "sql_neg SqlNegInf = SqlPosInf"

type_synonym grade_row = "int \<times> string \<times> sqlreal"
  \<comment> \<open>\<open>(roll_number, subject, grade)\<close>\<close>

record database =
  students :: "student_row list"
  grades :: "grade_row list"

text \<open>
  A connection sees its own pending changes (\<open>working\<close>); \<open>committed\<close> is the durable
  content of the file.
\<close>

record connection =
  committed :: database
  working :: database
  in_transaction :: bool

text \<open>
  The exceptions that \<^verbatim>\<open>cursor.execute\<close> raises in the model, each with its message,
  and \<^verbatim>\<open>str(e)\<close>, as the f-string of \<^verbatim>\<open>add_grades\<close> renders the exception.
\<close>

datatype exn =
    IntegrityError string
  | OverflowError string

fun str_exn :: "exn \<Rightarrow> string" where
  "str_exn (IntegrityError m) = m"
| "str_exn (OverflowError m) = m"

subsection \<open>The connection: \<^verbatim>\<open>sqlite3.connect\<close>, implicit transactions, commit, rollback\<close>

text \<open>
  \<open>init_db\<close> is the content of a new file after \<^verbatim>\<open>init_db()\<close> has created the two
  tables; \<open>connect\<close> is \<^verbatim>\<open>get_db()\<close> opening a connection on the content of the file.
\<close>

definition init_db :: database where
  "init_db = \<lparr>students = [], grades = []\<rparr>"

definition connect :: "database \<Rightarrow> connection" where
  "connect d = \<lparr>committed = d, working = d, in_transaction = False\<rparr>"

definition begin_transaction :: "connection \<Rightarrow> connection" where
  "begin_transaction c = (if in_transaction c then c else c\<lparr>in_transaction := True\<rparr>)"

definition commit :: "connection \<Rightarrow> connection" where
  "commit c =
     (if in_transaction c then c\<lparr>committed := working c, in_transaction := False\<rparr> else c)"

definition rollback :: "connection \<Rightarrow> connection" where
  "rollback c =
     (if in_transaction c then c\<lparr>working := committed c, in_transaction := False\<rparr> else c)"

definition in_int64 :: "int \<Rightarrow> bool" where
  "in_int64 i \<longleftrightarrow> - (2 ^ 63) \<le> i \<and> i < 2 ^ 63"

definition bind_int :: "int \<Rightarrow> exn + int" where
  "bind_int i =
     (if in_int64 i then Inr i
      else Inl (OverflowError ''Python int too large to convert to SQLite INTEGER''))"

subsection \<open>The statements\<close>

text \<open>
  \<^verbatim>\<open>INSERT INTO students (name, roll_number) VALUES (?, ?)\<close>. The module opens the
  transaction, binds the parameters, then runs the statement; the primary key makes
  the insert fail when the roll number is already in the table.
\<close>

definition insert_student :: "connection \<Rightarrow> string \<Rightarrow> int \<Rightarrow> connection \<times> (exn + unit)" where
  "insert_student c name roll_number =
     (let c1 = begin_transaction c in
      case bind_int roll_number of
        Inl e \<Rightarrow> (c1, Inl e)
      | Inr r \<Rightarrow>
          if r \<in> set (map fst (students (working c1)))
          then (c1, Inl (IntegrityError ''UNIQUE constraint failed: students.roll_number''))
          else (c1\<lparr>working := (working c1)
                  \<lparr>students := insort_key fst (r, name) (students (working c1))\<rparr>\<rparr>,
                Inr ()))"

text \<open>
  \<^verbatim>\<open>INSERT INTO grades (roll_number, subject, grade) VALUES (?, ?, ?)\<close>. No constraint
  looks at the other rows; the only failures are the bound integer out of range and a
  NaN grade, which reaches the \<^verbatim>\<open>NOT NULL\<close> column as \<^verbatim>\<open>NULL\<close>. An infinity is
  stored as it is.
\<close>

definition insert_grade ::
  "connection \<Rightarrow> int \<Rightarrow> string \<Rightarrow> pyfloat \<Rightarrow> connection \<times> (exn + unit)" where
  "insert_grade c roll_number subject grade =
     (let c1 = begin_transaction c in
      case bind_int roll_number of
        Inl e \<Rightarrow> (c1, Inl e)
      | Inr r \<Rightarrow>
          (case bind_float grade of
             None \<Rightarrow> (c1, Inl (IntegrityError ''NOT NULL constraint failed: grades.grade''))
           | Some x \<Rightarrow>
               (c1\<lparr>working := (working c1)
                  \<lparr>grades := grades (working c1) @ [(r, subject, x)]\<rparr>\<rparr>,
                Inr ())))"

text \<open>
  \<^verbatim>\<open>AVG\<close> over the values of a \<^verbatim>\<open>NOT NULL\<close> column. With no row the result is
  \<^verbatim>\<open>NULL\<close>. Otherwise SQLite adds the values and divides by their number in double
  precision; the rounding, and the way the sum is accumulated, which differs between
  versions of SQLite, are not modelled: \<open>avg_double\<close>, a parameter, is the float so
  computed from a non-empty list. Two facts do not depend on it and are modelled: with
  both infinities among the values the sum is NaN, however it is accumulated, and a
  result that is NaN is returned as \<^verbatim>\<open>NULL\<close>.
\<close>

definition sql_avg :: "(sqlreal list \<Rightarrow> pyfloat) \<Rightarrow> sqlreal list \<Rightarrow> sqlreal option" where
  "sql_avg avg_double vs =
     (if vs = [] then None
      else if SqlPosInf \<in> set vs \<and> SqlNegInf \<in> set vs then None
      else bind_float (avg_double vs))"

subsection \<open>The repository: class \<^verbatim>\<open>StudentTracker\<close>\<close>

definition add_student ::
  "connection \<Rightarrow> string \<Rightarrow> int \<Rightarrow> connection \<times> (exn + bool \<times> string)" where
  "add_student c name roll_number =
     (case insert_student c name roll_number of
        (c1, Inr u) \<Rightarrow> (commit c1, Inr (True, ''Student added successfully!''))
      | (c1, Inl (IntegrityError m)) \<Rightarrow> (c1, Inr (False, ''Error: Roll number already exists.''))
      | (c1, Inl e) \<Rightarrow> (c1, Inl e))"

definition get_all_students :: "connection \<Rightarrow> student_row list" where
  "get_all_students c = students (working c)"

definition get_student_by_roll :: "connection \<Rightarrow> int \<Rightarrow> exn + string option" where
  "get_student_by_roll c roll_number =
     (case bind_int roll_number of
        Inl e \<Rightarrow> Inl e
      | Inr r \<Rightarrow>
          (case filter (\<lambda>row. fst row = r) (students (working c)) of
             [] \<Rightarrow> Inr None
           | student # rest \<Rightarrow> Inr (Some (snd student))))"

fun insert_grades ::
  "connection \<Rightarrow> int \<Rightarrow> (string \<times> pyfloat) list \<Rightarrow> connection \<times> (exn + unit)" where
  "insert_grades c roll_number [] = (c, Inr ())"
| "insert_grades c roll_number ((subject, grade) # rest) =
     (case insert_grade c roll_number subject grade of
        (c1, Inl e) \<Rightarrow> (c1, Inl e)
      | (c1, Inr u) \<Rightarrow> insert_grades c1 roll_number rest)"

definition add_grades ::
  "connection \<Rightarrow> int \<Rightarrow> string list \<Rightarrow> pyfloat list \<Rightarrow> connection \<times> bool \<times> string" where
  "add_grades c roll_number subjects grade_values =
     (case insert_grades c roll_number (zip subjects grade_values) of
        (c1, Inr u) \<Rightarrow> (commit c1, True, ''Grades added successfully!'')
      | (c1, Inl e) \<Rightarrow> (rollback c1, False, ''Error adding grades: '' @ str_exn e))"

definition get_student_grades :: "connection \<Rightarrow> int \<Rightarrow> exn + (string \<times> sqlreal) list" where
  "get_student_grades c roll_number =
     (case bind_int roll_number of
        Inl e \<Rightarrow> Inl e
      | Inr r \<Rightarrow> Inr (map snd (filter (\<lambda>row. fst row = r) (grades (working c)))))"

definition calculate_average ::
  "(sqlreal list \<Rightarrow> pyfloat) \<Rightarrow> connection \<Rightarrow> int \<Rightarrow> exn + sqlreal option" where
  "calculate_average avg_double c roll_number =
     (case bind_int roll_number of
        Inl e \<Rightarrow> Inl e
      | Inr r \<Rightarrow>
          Inr (sql_avg avg_double (map (\<lambda>row. snd (snd row))
                 (filter (\<lambda>row. fst row = r) (grades (working c))))))"

text \<open>
  The join of \<^verbatim>\<open>get_subject_topper\<close>: the grade rows of the subject, each paired with
  the student of the same roll number, if there is one. \<^verbatim>\<open>ORDER BY grades.grade DESC\<close>
  is a sort on the negated grade and \<^verbatim>\<open>LIMIT 1\<close> with \<^verbatim>\<open>fetchone()\<close> takes the first
  row. SQL leaves the order of rows with equal grades open; the model's sort is stable,
  so it takes the first such row of the join, and no theorem below depends on that
  choice.
\<close>

definition subject_join :: "database \<Rightarrow> string \<Rightarrow> (string \<times> sqlreal) list" where
  "subject_join d subject =
     concat (map (\<lambda>g. map (\<lambda>s. (snd s, snd (snd g)))
                        (filter (\<lambda>s. fst s = fst g) (students d)))
                 (filter (\<lambda>g. fst (snd g) = subject) (grades d)))"

definition get_subject_topper :: "connection \<Rightarrow> string \<Rightarrow> (string \<times> sqlreal) option" where
  "get_subject_topper c subject =
     (case sort_key (\<lambda>row. sql_neg (snd row)) (subject_join (working c) subject) of
        [] \<Rightarrow> None
      | row # rest \<Rightarrow> Some row)"



subsection \<open>The request handlers that write to the store\<close>

text \<open>
  A submitted form is the list of its fields in the order sent; a field name may
  repeat. \<^verbatim>\<open>request.form[k]\<close> is the first value of \<open>k\<close> and raises
  \<^verbatim>\<open>BadRequestKeyError\<close> when there is none; \<^verbatim>\<open>request.form.getlist(k)\<close> is the list
  of all values of \<open>k\<close>.
\<close>

type_synonym form = "(string \<times> string) list"

definition form_get :: "form \<Rightarrow> string \<Rightarrow> string option" where
  "form_get f k = map_of f k"

definition form_getlist :: "form \<Rightarrow> string \<Rightarrow> string list" where
  "form_getlist f k = map snd (filter (\<lambda>field. fst field = k) f)"

text \<open>
  What a handler returns: a body with a status code, or the redirect to the index
  page. An exception that leaves the handler is the left summand of its result: the
  \<^verbatim>\<open>ValueError\<close> of \<^verbatim>\<open>int\<close>, the \<^verbatim>\<open>BadRequestKeyError\<close> of a missing form field, or
  an exception of the repository that the handler does not catch.
\<close>

datatype response = Response string nat | Redirect string

datatype failure = ValueError | BadRequestKeyError string | Raised exn

text \<open>Comparison of floats: every comparison with NaN is false.\<close>

definition float_le :: "pyfloat \<Rightarrow> pyfloat \<Rightarrow> bool" where
  "float_le a b =
     (case (bind_float a, bind_float b) of (Some x, Some y) \<Rightarrow> x \<le> y | _ \<Rightarrow> False)"

definition float_less :: "pyfloat \<Rightarrow> pyfloat \<Rightarrow> bool" where
  "float_less a b =
     (case (bind_float a, bind_float b) of (Some x, Some y) \<Rightarrow> x < y | _ \<Rightarrow> False)"

text \<open>The spec's condition on a grade: a number in the inclusive range from 0 to 100.\<close>

fun in_range_0_100 :: "pyfloat \<Rightarrow> bool" where
  "in_range_0_100 (Finite x) = (0 \<le> x \<and> x \<le> 100)"
| "in_range_0_100 PosInf = False"
| "in_range_0_100 NegInf = False"
| "in_range_0_100 NaN = False"

text \<open>
  Python's built-in conversions \<^verbatim>\<open>int(s)\<close> and \<^verbatim>\<open>float(s)\<close> are parameters of the
  handlers: \<open>py_int\<close> and \<open>py_float\<close> give the converted value, or \<open>None\<close> where Python
  raises \<^verbatim>\<open>ValueError\<close>.

  The validation loop of the \<^verbatim>\<open>add_grades\<close> handler, with the list \<^verbatim>\<open>grades\<close> as
  accumulator:
  \<^verbatim>\<open>
  for g in grades_str:
      try:
          grade = float(g)
          if not 0 <= grade <= 100:
              return "Grades must be between 0 and 100.", 400
          grades.append(grade)
      except ValueError:
          return "Grades must be numeric.", 400
  \<close>
\<close>

fun parse_grades ::
  "(string \<Rightarrow> pyfloat option) \<Rightarrow> string list \<Rightarrow> pyfloat list \<Rightarrow> response + pyfloat list" where
  "parse_grades py_float [] acc = Inr acc"
| "parse_grades py_float (g # rest) acc =
     (case py_float g of
        None \<Rightarrow> Inl (Response ''Grades must be numeric.'' 400)
      | Some grade \<Rightarrow>
          if \<not> (float_le (Finite 0) grade \<and> float_le grade (Finite 100))
          then Inl (Response ''Grades must be between 0 and 100.'' 400)
          else parse_grades py_float rest (acc @ [grade]))"

definition add_student_handler ::
  "(string \<Rightarrow> int option) \<Rightarrow> connection \<Rightarrow> form \<Rightarrow> connection \<times> (failure + response)" where
  "add_student_handler py_int c f =
     (case form_get f ''name'' of
        None \<Rightarrow> (c, Inl (BadRequestKeyError ''name''))
      | Some name \<Rightarrow>
     (case form_get f ''roll_number'' of
        None \<Rightarrow> (c, Inl (BadRequestKeyError ''roll_number''))
      | Some roll_str \<Rightarrow>
          if name = [] \<or> roll_str = []
          then (c, Inr (Response ''Name and Roll Number are required.'' 400))
          else
            (case py_int roll_str of
               None \<Rightarrow> (c, Inl ValueError)
             | Some roll_number \<Rightarrow>
                 (case add_student c name roll_number of
                    (c1, Inl e) \<Rightarrow> (c1, Inl (Raised e))
                  | (c1, Inr (success, message)) \<Rightarrow>
                      if success then (c1, Inr (Redirect ''/''))
                      else (c1, Inr (Response message 400))))))"

definition add_grades_handler ::
  "(string \<Rightarrow> int option) \<Rightarrow> (string \<Rightarrow> pyfloat option) \<Rightarrow> connection \<Rightarrow> form
     \<Rightarrow> connection \<times> (failure + response)" where
  "add_grades_handler py_int py_float c f =
     (case form_get f ''roll_number'' of
        None \<Rightarrow> (c, Inl (BadRequestKeyError ''roll_number''))
      | Some roll_str \<Rightarrow>
     (case py_int roll_str of
        None \<Rightarrow> (c, Inl ValueError)
      | Some roll_number \<Rightarrow>
     (case get_student_by_roll c roll_number of
        Inl e \<Rightarrow> (c, Inl (Raised e))
      | Inr None \<Rightarrow> (c, Inr (Response ''Student not found.'' 404))
      | Inr (Some name) \<Rightarrow>
          (case parse_grades py_float (form_getlist f ''grade'') [] of
             Inl rejected \<Rightarrow> (c, Inr rejected)
           | Inr grade_values \<Rightarrow>
               (case add_grades c roll_number (form_getlist f ''subject'') grade_values of
                  (c1, success, message) \<Rightarrow>
                    if success then (c1, Inr (Redirect ''/''))
                    else (c1, Inr (Response message 500)))))))"

text \<open>
  The values of \<^verbatim>\<open>int\<close> and \<^verbatim>\<open>float\<close> on the strings of the examples below, and
  \<open>None\<close> on every other string: the examples use them only on the strings listed.
\<close>

definition int_sample :: "string \<Rightarrow> int option" where
  "int_sample s =
     (if s = ''1'' then Some 1 else if s = ''2'' then Some 2
      else if s = ''99'' then Some 99 else None)"

definition float_sample :: "string \<Rightarrow> pyfloat option" where
  "float_sample s =
     (if s = ''90'' then Some (Finite 90) else if s = ''80'' then Some (Finite 80)
      else if s = ''150'' then Some (Finite 150) else if s = ''nan'' then Some NaN
      else None)"

subsection \<open>Well-formed stores, sequences of calls and example stores\<close>

text \<open>
  What SQLite guarantees of the content of the two tables: the students are in
  ascending order of their key, no key occurs twice, and every stored integer is a
  signed 64-bit value. A connection outside a transaction has no pending change.
\<close>

definition wf_database :: "database \<Rightarrow> bool" where
  "wf_database d \<longleftrightarrow>
     sorted (map fst (students d)) \<and> distinct (map fst (students d)) \<and>
     list_all in_int64 (map fst (students d)) \<and> list_all in_int64 (map fst (grades d))"

definition wf_connection :: "connection \<Rightarrow> bool" where
  "wf_connection c \<longleftrightarrow>
     wf_database (committed c) \<and> wf_database (working c) \<and>
     (in_transaction c \<or> working c = committed c)"

text \<open>
  A sequence of \<^verbatim>\<open>add_student\<close> requests, each on a connection of its own to the file
  the previous one left, as the handlers open them.
\<close>

fun add_students :: "database \<Rightarrow> (string \<times> int) list \<Rightarrow> database" where
  "add_students d [] = d"
| "add_students d ((name, roll_number) # rest) =
     add_students (committed (fst (add_student (connect d) name roll_number))) rest"

text \<open>
  Example stores: Bob (2) is added before Alice (1); Alice gets two grades; then two
  grades are recorded for roll number 99, which is no student's; then the two
  infinities are recorded in one more subject, again for roll number 99.
\<close>

definition example_students :: connection where
  "example_students = connect (add_students init_db [(''Bob'', 2), (''Alice'', 1)])"

definition example_grades :: connection where
  "example_grades =
     fst (add_grades example_students 1 [''Math'', ''Science''] [Finite 90, Finite 80])"

definition example_orphans :: connection where
  "example_orphans =
     fst (add_grades example_grades 99 [''Math'', ''Art''] [Finite 95, Finite 70])"


text \<open>
  The exact mean of finite values, as a float: what \<^verbatim>\<open>AVG\<close> gives where double
  precision computes the sum and the quotient without rounding, as on the small whole
  numbers of the examples. It stands for \<open>avg_double\<close> in the examples only.
\<close>

definition sql_finite :: "sqlreal \<Rightarrow> real" where
  "sql_finite v = (case v of SqlReal x \<Rightarrow> x | _ \<Rightarrow> 0)"

definition avg_sample :: "sqlreal list \<Rightarrow> pyfloat" where
  "avg_sample vs = Finite (sum_list (map sql_finite vs) / real (length vs))"

section \<open>Properties\<close>

subsection \<open>Aggregates and single statements\<close>

lemma sql_avg_Nil: "sql_avg avg_double [] = None"
  by (simp add: sql_avg_def)

lemma sql_neg_le: "sql_neg a \<le> sql_neg b \<longleftrightarrow> b \<le> a"
  by (cases a; cases b) simp_all

lemma bind_float_None: "bind_float g = None \<longleftrightarrow> g = NaN"
  by (cases g) simp_all

lemma insert_grade_fields:
  "committed (fst (insert_grade c r s g)) = committed c"
  "in_transaction (fst (insert_grade c r s g))"
  "students (working (fst (insert_grade c r s g))) = students (working c)"
  by (simp_all add: insert_grade_def begin_transaction_def bind_int_def Let_def
      split: option.splits)

lemma insert_grade_outcome:
  "snd (insert_grade c r s g) =
     (if \<not> in_int64 r
      then Inl (OverflowError ''Python int too large to convert to SQLite INTEGER'')
      else if g = NaN then Inl (IntegrityError ''NOT NULL constraint failed: grades.grade'')
      else Inr ())"
  by (cases g) (simp_all add: insert_grade_def bind_int_def Let_def)

text \<open>The example stores, computed.\<close>

lemma example_students_eq:
  "example_students =
     \<lparr>committed = \<lparr>students = [(1, ''Alice''), (2, ''Bob'')], grades = []\<rparr>,
      working = \<lparr>students = [(1, ''Alice''), (2, ''Bob'')], grades = []\<rparr>,
      in_transaction = False\<rparr>"
  by (simp add: example_students_def init_db_def connect_def add_student_def insert_student_def
      begin_transaction_def bind_int_def in_int64_def commit_def Let_def)

lemma example_grades_eq:
  "example_grades =
     \<lparr>committed = \<lparr>students = [(1, ''Alice''), (2, ''Bob'')],
                   grades = [(1, ''Math'', SqlReal 90), (1, ''Science'', SqlReal 80)]\<rparr>,
      working = \<lparr>students = [(1, ''Alice''), (2, ''Bob'')],
                 grades = [(1, ''Math'', SqlReal 90), (1, ''Science'', SqlReal 80)]\<rparr>,
      in_transaction = False\<rparr>"
  by (simp add: example_grades_def example_students_eq add_grades_def insert_grade_def
      begin_transaction_def bind_int_def in_int64_def commit_def Let_def)

lemma example_orphans_eq:
  "example_orphans =
     \<lparr>committed = \<lparr>students = [(1, ''Alice''), (2, ''Bob'')],
                   grades = [(1, ''Math'', SqlReal 90), (1, ''Science'', SqlReal 80),
                             (99, ''Math'', SqlReal 95), (99, ''Art'', SqlReal 70)]\<rparr>,
      working = \<lparr>students = [(1, ''Alice''), (2, ''Bob'')],
                 grades = [(1, ''Math'', SqlReal 90), (1, ''Science'', SqlReal 80),
                           (99, ''Math'', SqlReal 95), (99, ''Art'', SqlReal 70)]\<rparr>,
      in_transaction = False\<rparr>"
  by (simp add: example_orphans_def example_grades_eq add_grades_def insert_grade_def
      begin_transaction_def bind_int_def in_int64_def commit_def Let_def)


lemma fresh_connection:
  "connect init_db = \<lparr>committed = \<lparr>students = [], grades = []\<rparr>,
      working = \<lparr>students = [], grades = []\<rparr>, in_transaction = False\<rparr>"
  by (simp add: connect_def init_db_def)

lemma wf_example_students: "wf_connection example_students"
  by (simp add: wf_connection_def wf_database_def example_students_eq in_int64_def)

subsection \<open>The batch insert of \<^verbatim>\<open>add_grades\<close>\<close>

lemma insert_grades_failure:
  assumes "insert_grades c r ps = (c1, Inl e)"
  shows "committed c1 = committed c \<and> in_transaction c1 \<and>
         (\<exists>s g. (s, g) \<in> set ps \<and> (\<forall>c0. snd (insert_grade c0 r s g) = Inl e))"
  using assms
proof (induction ps arbitrary: c)
  case Nil
  then show ?case by simp
next
  case (Cons p ps)
  obtain s g where p: "p = (s, g)" by (cases p)
  obtain c2 res where ig: "insert_grade c r s g = (c2, res)"
    by (cases "insert_grade c r s g")
  have f: "committed c2 = committed c" "in_transaction c2"
    using insert_grade_fields(1,2)[of c r s g] ig by simp_all
  show ?case
  proof (cases res)
    case (Inl e')
    with Cons.prems p ig have "c1 = c2" "e' = e" by simp_all
    moreover have "\<forall>c0. snd (insert_grade c0 r s g) = Inl e"
      using ig Inl \<open>e' = e\<close> insert_grade_outcome[of c r s g]
      by (simp add: insert_grade_outcome)
    ultimately show ?thesis using f p by auto
  next
    case (Inr u)
    with Cons.prems p ig have "insert_grades c2 r ps = (c1, Inl e)" by simp
    from Cons.IH[OF this] f p show ?thesis by auto
  qed
qed

lemma insert_grades_fails_if:
  assumes "(s, g) \<in> set ps" and "snd (insert_grade c0 r s g) = Inl e0"
  shows "\<exists>c1 e. insert_grades c r ps = (c1, Inl e)"
  using assms(1)
proof (induction ps arbitrary: c)
  case Nil
  then show ?case by simp
next
  case (Cons p ps)
  obtain s' g' where p: "p = (s', g')" by (cases p)
  obtain c2 res where ig: "insert_grade c r s' g' = (c2, res)"
    by (cases "insert_grade c r s' g'")
  show ?case
  proof (cases res)
    case (Inl e')
    then show ?thesis using p ig by simp
  next
    case (Inr u)
    have "(s, g) \<noteq> (s', g')"
    proof
      assume "(s, g) = (s', g')"
      then have "snd (insert_grade c r s' g') = Inl e0"
        using assms(2) by (simp add: insert_grade_outcome)
      with ig Inr show False by simp
    qed
    with Cons.prems p have "(s, g) \<in> set ps" by auto
    from Cons.IH[OF this, of c2] show ?thesis using p ig Inr by simp
  qed
qed

text \<open>
  Claim C1. \<^verbatim>\<open>add_grades\<close> is all-or-nothing: if the insert of any pair of the batch
  fails, the call returns the failure flag with a message that ends in the text of
  the exception of a failing insert of the batch, and no row of the batch is kept:
  after the rollback the durable content is what it was before the call, and the
  connection sees exactly that content again.
\<close>

theorem add_grades_all_or_nothing:
  assumes "(subject, grade) \<in> set (zip subjects grade_values)"
    and "snd (insert_grade c0 roll_number subject grade) = Inl e0"
  shows "\<exists>c' e s g. add_grades c roll_number subjects grade_values =
            (c', False, ''Error adding grades: '' @ str_exn e) \<and>
          committed c' = committed c \<and> working c' = committed c \<and> \<not> in_transaction c' \<and>
          (s, g) \<in> set (zip subjects grade_values) \<and>
          snd (insert_grade c0 roll_number s g) = Inl e"
proof -
  from insert_grades_fails_if[OF assms] obtain c1 e
    where run: "insert_grades c roll_number (zip subjects grade_values) = (c1, Inl e)"
    by blast
  from insert_grades_failure[OF run] obtain s g
    where f: "committed c1 = committed c" "in_transaction c1"
      and sg: "(s, g) \<in> set (zip subjects grade_values)"
              "snd (insert_grade c0 roll_number s g) = Inl e"
    by blast
  have "add_grades c roll_number subjects grade_values =
          (rollback c1, False, ''Error adding grades: '' @ str_exn e)"
    by (simp add: add_grades_def run)
  moreover have "committed (rollback c1) = committed c" "working (rollback c1) = committed c"
    "\<not> in_transaction (rollback c1)"
    using f by (simp_all add: rollback_def)
  ultimately show ?thesis using sg by blast
qed

theorem add_grades_all_or_nothing_witness:
  "(''Science'', NaN) \<in> set (zip [''Math'', ''Science''] [Finite 90, NaN]) \<and>
   snd (insert_grade example_students 1 ''Science'' NaN) =
     Inl (IntegrityError ''NOT NULL constraint failed: grades.grade'') \<and>
   add_grades example_students 1 [''Math'', ''Science''] [Finite 90, NaN] =
     (example_students, False,
      ''Error adding grades: NOT NULL constraint failed: grades.grade'')"
proof -
  have h1: "(''Science'', NaN) \<in> set (zip [''Math'', ''Science''] [Finite 90, NaN])"
    by simp
  have h2: "snd (insert_grade example_students 1 ''Science'' NaN) =
     Inl (IntegrityError ''NOT NULL constraint failed: grades.grade'')"
    by (simp add: insert_grade_outcome in_int64_def)
  have "add_grades example_students 1 [''Math'', ''Science''] [Finite 90, NaN] =
     (example_students, False,
      ''Error adding grades: NOT NULL constraint failed: grades.grade'')"
    using add_grades_all_or_nothing[OF h1 h2, of example_students]
    by (simp add: example_students_eq add_grades_def insert_grade_def
      begin_transaction_def bind_int_def in_int64_def rollback_def Let_def)
  with h1 h2 show ?thesis by blast
qed

subsection \<open>Students\<close>

lemma begin_transaction_fields:
  "committed (begin_transaction c) = committed c"
  "working (begin_transaction c) = working c"
  "in_transaction (begin_transaction c)"
  by (simp_all add: begin_transaction_def)

lemma filter_insort_new_key:
  "r \<notin> set (map fst xs) \<Longrightarrow>
   filter (\<lambda>row. fst row = r) (insort_key fst (r, n) xs) = [(r, n)]"
  by (induction xs) (auto simp: filter_empty_conv)

lemma add_student_success:
  assumes "in_int64 r" and "r \<notin> set (map fst (students (working c)))"
  shows "add_student c name r =
           (\<lparr>committed = (working c)\<lparr>students := insort_key fst (r, name) (students (working c))\<rparr>,
             working = (working c)\<lparr>students := insort_key fst (r, name) (students (working c))\<rparr>,
             in_transaction = False\<rparr>,
            Inr (True, ''Student added successfully!''))"
  using assms
  by (simp add: add_student_def insert_student_def bind_int_def Let_def commit_def
      begin_transaction_def)

lemma add_student_conflict:
  assumes "in_int64 r" and "r \<in> set (map fst (students (working c)))"
  shows "add_student c name r =
           (begin_transaction c, Inr (False, ''Error: Roll number already exists.''))"
  using assms
  by (simp add: add_student_def insert_student_def bind_int_def Let_def begin_transaction_fields)

lemma add_student_overflow:
  assumes "\<not> in_int64 r"
  shows "add_student c name r =
           (begin_transaction c,
            Inl (OverflowError ''Python int too large to convert to SQLite INTEGER''))"
  using assms
  by (simp add: add_student_def insert_student_def bind_int_def Let_def)

lemma wf_database_init: "wf_database init_db"
  by (simp add: wf_database_def init_db_def)

lemma wf_connection_connect: "wf_database d \<Longrightarrow> wf_connection (connect d)"
  by (simp add: wf_connection_def connect_def)

lemma wf_connection_begin: "wf_connection c \<Longrightarrow> wf_connection (begin_transaction c)"
  by (simp add: wf_connection_def begin_transaction_def)

lemma wf_database_insert_student:
  assumes "wf_database d" "in_int64 r" "r \<notin> set (map fst (students d))"
  shows "wf_database (d\<lparr>students := insort_key fst (r, name) (students d)\<rparr>)"
  using assms
  by (simp add: wf_database_def sorted_insort_key distinct_insort_key set_insort_key
      list_all_iff)

lemma wf_connection_add_student:
  assumes "wf_connection c"
  shows "wf_connection (fst (add_student c name r))"
proof (cases "in_int64 r")
  case False
  then show ?thesis using assms by (simp add: add_student_overflow wf_connection_begin)
next
  case True
  show ?thesis
  proof (cases "r \<in> set (map fst (students (working c)))")
    case True
    with \<open>in_int64 r\<close> show ?thesis
      using assms by (simp add: add_student_conflict wf_connection_begin)
  next
    case False
    have "wf_database ((working c)\<lparr>students := insort_key fst (r, name) (students (working c))\<rparr>)"
      using assms True False by (intro wf_database_insert_student) (simp_all add: wf_connection_def)
    then show ?thesis
      using True False by (simp add: add_student_success wf_connection_def)
  qed
qed

text \<open>
  Claim C7, as amended. For every non-empty name and every roll number in the signed
  64-bit range that no student has yet, \<^verbatim>\<open>add_student\<close> succeeds, and
  \<^verbatim>\<open>get_student_by_roll\<close> then returns that name, on the same connection and on a
  new connection to the file.
\<close>

theorem add_student_then_retrievable:
  assumes "name \<noteq> []" and "in_int64 roll_number"
    and "roll_number \<notin> set (map fst (students (working c)))"
  shows "\<exists>c'. add_student c name roll_number = (c', Inr (True, ''Student added successfully!'')) \<and>
           get_student_by_roll c' roll_number = Inr (Some name) \<and>
           get_student_by_roll (connect (committed c')) roll_number = Inr (Some name)"
  using assms(2,3)
  by (simp add: add_student_success get_student_by_roll_def bind_int_def
      filter_insort_new_key connect_def)

theorem add_student_out_of_range_counterexample:
  "''Alice'' \<noteq> [] \<and>
   2 ^ 63 \<notin> set (map fst (students (working (connect init_db)))) \<and>
   add_student (connect init_db) ''Alice'' (2 ^ 63) =
     (begin_transaction (connect init_db),
      Inl (OverflowError ''Python int too large to convert to SQLite INTEGER''))"
  by (simp add: fresh_connection add_student_overflow in_int64_def)

theorem add_student_then_retrievable_witness:
  "''Alice'' \<noteq> [] \<and> in_int64 1 \<and>
   1 \<notin> set (map fst (students (working (connect init_db)))) \<and>
   (\<exists>c'. add_student (connect init_db) ''Alice'' 1 =
            (c', Inr (True, ''Student added successfully!'')) \<and>
         get_student_by_roll c' 1 = Inr (Some ''Alice'') \<and>
         get_student_by_roll (connect (committed c')) 1 = Inr (Some ''Alice''))"
proof -
  have h1: "''Alice'' \<noteq> []" by simp
  have h2: "in_int64 1" by (simp add: in_int64_def)
  have h3: "1 \<notin> set (map fst (students (working (connect init_db))))"
    by (simp add: fresh_connection)
  from add_student_then_retrievable[OF h1 h2 h3] h1 h2 h3 show ?thesis by blast
qed

text \<open>
  Claim C3. In a well-formed store, \<^verbatim>\<open>add_student\<close> with a roll number that a
  student already has returns the failure flag with the text
  \<^verbatim>\<open>Error: Roll number already exists.\<close> (a value, not an exception), and leaves the
  content the connection sees and the durable content as they were. The handler, on a
  form that reaches the call, answers with that text and status 400.
\<close>

theorem add_student_duplicate_conflict:
  assumes "wf_connection c" and "roll_number \<in> set (map fst (students (working c)))"
  shows "\<exists>c'. add_student c name roll_number =
             (c', Inr (False, ''Error: Roll number already exists.'')) \<and>
           working c' = working c \<and> committed c' = committed c \<and>
           (\<forall>py_int f roll_str.
              form_get f ''name'' = Some name \<and> name \<noteq> [] \<and>
              form_get f ''roll_number'' = Some roll_str \<and> roll_str \<noteq> [] \<and>
              py_int roll_str = Some roll_number \<longrightarrow>
              add_student_handler py_int c f =
                (c', Inr (Response ''Error: Roll number already exists.'' 400)))"
proof -
  have "in_int64 roll_number"
    using assms by (auto simp: wf_connection_def wf_database_def list_all_iff)
  from add_student_conflict[OF this assms(2)] show ?thesis
    by (auto simp: begin_transaction_fields add_student_handler_def)
qed

theorem add_student_duplicate_conflict_witness:
  "wf_connection example_students \<and>
   1 \<in> set (map fst (students (working example_students))) \<and>
   add_student example_students ''Eve'' 1 =
     (begin_transaction example_students,
      Inr (False, ''Error: Roll number already exists.'')) \<and>
   working (begin_transaction example_students) = working example_students \<and>
   committed (begin_transaction example_students) = committed example_students \<and>
   add_student_handler int_sample example_students
       [(''name'', ''Eve''), (''roll_number'', ''1'')] =
     (begin_transaction example_students,
      Inr (Response ''Error: Roll number already exists.'' 400))"
proof -
  have h2: "1 \<in> set (map fst (students (working example_students)))"
    by (simp add: example_students_eq)
  from add_student_duplicate_conflict[OF wf_example_students h2, of "''Eve''"]
  obtain c' where
    a: "add_student example_students ''Eve'' 1 =
          (c', Inr (False, ''Error: Roll number already exists.''))"
    and w: "working c' = working example_students" "committed c' = committed example_students"
    and h: "\<forall>py_int f roll_str.
              form_get f ''name'' = Some ''Eve'' \<and> ''Eve'' \<noteq> [] \<and>
              form_get f ''roll_number'' = Some roll_str \<and> roll_str \<noteq> [] \<and>
              py_int roll_str = Some 1 \<longrightarrow>
              add_student_handler py_int example_students f =
                (c', Inr (Response ''Error: Roll number already exists.'' 400))"
    by blast
  have "add_student example_students ''Eve'' 1 =
          (begin_transaction example_students,
           Inr (False, ''Error: Roll number already exists.''))"
    by (rule add_student_conflict) (simp_all add: in_int64_def example_students_eq)
  with a have c': "c' = begin_transaction example_students" by simp
  have "add_student_handler int_sample example_students
       [(''name'', ''Eve''), (''roll_number'', ''1'')] =
     (c', Inr (Response ''Error: Roll number already exists.'' 400))"
    using h[rule_format, of "[(''name'', ''Eve''), (''roll_number'', ''1'')]" "''1''" int_sample]
    by (simp add: form_get_def int_sample_def)
  with a w c' wf_example_students h2 show ?thesis by simp
qed

text \<open>
  Claim C6, as amended. For every roll number in the signed 64-bit range that no grade
  row carries, \<^verbatim>\<open>calculate_average\<close> returns \<^verbatim>\<open>None\<close>: a value, which is neither
  a number nor an exception.
\<close>

theorem calculate_average_no_grades:
  assumes "in_int64 roll_number"
    and "roll_number \<notin> set (map fst (grades (working c)))"
  shows "calculate_average avg_double c roll_number = Inr None"
proof -
  have "filter (\<lambda>row. fst row = roll_number) (grades (working c)) = []"
    using assms(2) by (auto simp: filter_empty_conv)
  then show ?thesis
    using assms(1) by (simp add: calculate_average_def bind_int_def sql_avg_Nil)
qed

theorem calculate_average_out_of_range_counterexample:
  "2 ^ 63 \<notin> set (map fst (grades (working example_grades))) \<and>
   calculate_average avg_sample example_grades (2 ^ 63) =
     Inl (OverflowError ''Python int too large to convert to SQLite INTEGER'')"
  by (simp add: example_grades_eq calculate_average_def bind_int_def in_int64_def)

theorem calculate_average_no_grades_witness:
  "in_int64 2 \<and> 2 \<notin> set (map fst (grades (working example_grades))) \<and>
   calculate_average avg_sample example_grades 2 = Inr None"
proof -
  have h1: "in_int64 2" by (simp add: in_int64_def)
  have h2: "2 \<notin> set (map fst (grades (working example_grades)))"
    by (simp add: example_grades_eq)
  from calculate_average_no_grades[OF h1 h2] h1 h2 show ?thesis by blast
qed

subsection \<open>Toppers and class averages\<close>

lemma subject_join_iff:
  "(name, g) \<in> set (subject_join d subject) \<longleftrightarrow>
     (\<exists>r. (r, subject, g) \<in> set (grades d) \<and> (r, name) \<in> set (students d))"
  by (force simp: subject_join_def)

lemma sort_key_first:
  assumes "sort_key f xs = y # ys"
  shows "y \<in> set xs \<and> (\<forall>x \<in> set xs. f y \<le> f x)"
proof -
  have s: "set xs = set (y # ys)" using assms set_sort[of f xs] by simp
  have "sorted (map f (y # ys))" using assms sorted_sort_key[of f xs] by simp
  then have "\<forall>x \<in> set (y # ys). f y \<le> f x" by auto
  with s show ?thesis by simp
qed

lemma sort_key_Nil_iff: "sort_key f xs = [] \<longleftrightarrow> xs = []"
  using set_sort[of f xs] by (metis set_empty)

lemma topper_None_iff:
  "get_subject_topper c subject = None \<longleftrightarrow> subject_join (working c) subject = []"
  using sort_key_Nil_iff[of "\<lambda>row. sql_neg (snd row)" "subject_join (working c) subject"]
  by (cases "sort_key (\<lambda>row. sql_neg (snd row)) (subject_join (working c) subject)")
    (simp_all add: get_subject_topper_def)

lemma topper_Some:
  assumes "get_subject_topper c subject = Some (name, g)"
  shows "(name, g) \<in> set (subject_join (working c) subject) \<and>
         (\<forall>x \<in> set (subject_join (working c) subject). snd x \<le> g)"
proof -
  from assms obtain rest where
    sk: "sort_key (\<lambda>row. sql_neg (snd row)) (subject_join (working c) subject) =
           (name, g) # rest"
    by (auto simp: get_subject_topper_def split: list.splits)
  from sort_key_first[OF sk] show ?thesis by (simp add: sql_neg_le)
qed

lemma subject_join_Nil_iff:
  "subject_join d subject = [] \<longleftrightarrow>
     \<not> (\<exists>r g name. (r, subject, g) \<in> set (grades d) \<and> (r, name) \<in> set (students d))"
proof -
  have "subject_join d subject = [] \<longleftrightarrow>
          \<not> (\<exists>name g. (name, g) \<in> set (subject_join d subject))"
    by (cases "subject_join d subject") auto
  then show ?thesis by (auto simp: subject_join_iff)
qed

text \<open>
  Claim C5, as amended. \<^verbatim>\<open>get_subject_topper\<close> is absent exactly when no grade row of
  the subject carries the roll number of an existing student. Otherwise it returns the
  name and the grade of such a row, and the grade is the greatest among the grade rows
  of the subject that carry the roll number of an existing student.
\<close>

theorem get_subject_topper_joined_max:
  "(get_subject_topper c subject = None \<longleftrightarrow>
      \<not> (\<exists>r g name. (r, subject, g) \<in> set (grades (working c)) \<and>
                     (r, name) \<in> set (students (working c)))) \<and>
   (\<forall>name g. get_subject_topper c subject = Some (name, g) \<longrightarrow>
      (\<exists>r. (r, subject, g) \<in> set (grades (working c)) \<and>
           (r, name) \<in> set (students (working c))) \<and>
      (\<forall>r' g' name'. (r', subject, g') \<in> set (grades (working c)) \<and>
           (r', name') \<in> set (students (working c)) \<longrightarrow> g' \<le> g))"
proof (intro conjI allI impI)
  show "get_subject_topper c subject = None \<longleftrightarrow>
      \<not> (\<exists>r g name. (r, subject, g) \<in> set (grades (working c)) \<and>
                     (r, name) \<in> set (students (working c)))"
    by (simp only: topper_None_iff subject_join_Nil_iff)
next
  fix name g
  assume top: "get_subject_topper c subject = Some (name, g)"
  from topper_Some[OF top]
  have mem: "(name, g) \<in> set (subject_join (working c) subject)"
    and mx: "\<forall>x \<in> set (subject_join (working c) subject). snd x \<le> g"
    by auto
  from mem show "\<exists>r. (r, subject, g) \<in> set (grades (working c)) \<and>
           (r, name) \<in> set (students (working c))"
    by (simp add: subject_join_iff)
  fix r' g' name'
  assume "(r', subject, g') \<in> set (grades (working c)) \<and>
           (r', name') \<in> set (students (working c))"
  then have "(name', g') \<in> set (subject_join (working c) subject)"
    by (auto simp: subject_join_iff)
  with mx show "g' \<le> g" by auto
qed

theorem get_subject_topper_orphans_counterexample:
  "get_subject_topper example_orphans ''Art'' = None \<and>
   (99, ''Art'', SqlReal 70) \<in> set (grades (working example_orphans)) \<and>
   get_subject_topper example_orphans ''Math'' = Some (''Alice'', SqlReal 90) \<and>
   (99, ''Math'', SqlReal 95) \<in> set (grades (working example_orphans))"
  by (simp add: example_orphans_eq get_subject_topper_def subject_join_def)

theorem get_subject_topper_joined_max_witness:
  "get_subject_topper example_orphans ''Math'' = Some (''Alice'', SqlReal 90) \<and>
   (1, ''Math'', SqlReal 90) \<in> set (grades (working example_orphans)) \<and>
   (1, ''Alice'') \<in> set (students (working example_orphans)) \<and>
   get_subject_topper example_orphans ''History'' = None"
  using get_subject_topper_joined_max[of example_orphans "''Math''"]
    get_subject_topper_joined_max[of example_orphans "''History''"]
  by (simp add: example_orphans_eq get_subject_topper_def subject_join_def)






subsection \<open>Batches that succeed\<close>

lemma bind_float_Some: "bind_float g = Some v \<Longrightarrow> float_of_sql v = g"
  by (cases g) auto

lemma insert_grades_success:
  assumes "in_int64 r" and "NaN \<notin> set (map snd ps)"
  shows "\<exists>c1 rows. insert_grades c r ps = (c1, Inr ()) \<and>
           committed c1 = committed c \<and>
           students (working c1) = students (working c) \<and>
           grades (working c1) = grades (working c) @ rows \<and>
           map (\<lambda>row. (fst (snd row), float_of_sql (snd (snd row)))) rows = ps \<and>
           list_all (\<lambda>row. fst row = r) rows \<and>
           in_transaction c1 = (in_transaction c \<or> ps \<noteq> [])"
  using assms(2)
proof (induction ps arbitrary: c)
  case Nil
  then show ?case by simp
next
  case (Cons p ps)
  obtain s g where p: "p = (s, g)" by (cases p)
  with Cons.prems have "g \<noteq> NaN" by auto
  then obtain x where g: "bind_float g = Some x"
    using bind_float_None[of g] by (cases "bind_float g") auto
  define c2 where "c2 = fst (insert_grade c r s g)"
  have ig: "insert_grade c r s g = (c2, Inr ())"
    using insert_grade_outcome[of c r s g] assms(1) \<open>g \<noteq> NaN\<close>
    by (simp add: c2_def prod_eq_iff)
  have c2: "committed c2 = committed c" "in_transaction c2"
    "students (working c2) = students (working c)"
    "grades (working c2) = grades (working c) @ [(r, s, x)]"
    using assms(1) g
    by (simp_all add: c2_def insert_grade_def begin_transaction_def bind_int_def Let_def)
  from Cons.prems have "NaN \<notin> set (map snd ps)" by simp
  from Cons.IH[OF this, of c2] obtain c1 rows where
    ih: "insert_grades c2 r ps = (c1, Inr ())" "committed c1 = committed c2"
      "students (working c1) = students (working c2)"
      "grades (working c1) = grades (working c2) @ rows"
      "map (\<lambda>row. (fst (snd row), float_of_sql (snd (snd row)))) rows = ps"
      "list_all (\<lambda>row. fst row = r) rows"
      "in_transaction c1 = (in_transaction c2 \<or> ps \<noteq> [])"
    by blast
  have "insert_grades c r (p # ps) = (c1, Inr ())"
    using p ig ih(1) by simp
  moreover have "grades (working c1) = grades (working c) @ ((r, s, x) # rows)"
    using ih(4) c2(4) by simp
  moreover have "map (\<lambda>row. (fst (snd row), float_of_sql (snd (snd row)))) ((r, s, x) # rows)
      = p # ps"
    using ih(5) p bind_float_Some[OF g] by simp
  moreover have "list_all (\<lambda>row. fst row = r) ((r, s, x) # rows)"
    using ih(6) by simp
  ultimately show ?case
    using ih(2,3,7) c2(1,2,3)
    by (intro exI[of _ c1] exI[of _ "(r, s, x) # rows"]) simp
qed

lemma add_grades_success:
  assumes "wf_connection c" and "in_int64 roll_number"
    and "NaN \<notin> set grade_values"
  shows "\<exists>c' rows. add_grades c roll_number subjects grade_values =
             (c', True, ''Grades added successfully!'') \<and>
           grades (committed c') = grades (working c) @ rows \<and>
           students (committed c') = students (working c) \<and>
           working c' = committed c' \<and>
           map (\<lambda>row. (fst (snd row), float_of_sql (snd (snd row)))) rows =
             zip subjects grade_values \<and>
           list_all (\<lambda>row. fst row = roll_number) rows \<and>
           length rows = min (length subjects) (length grade_values)"
proof -
  have "set (map snd (zip subjects grade_values)) \<subseteq> set grade_values"
    by (auto dest: set_zip_rightD)
  with assms(3) have "NaN \<notin> set (map snd (zip subjects grade_values))" by blast
  from insert_grades_success[OF assms(2) this, of c] obtain c1 rows where
    r: "insert_grades c roll_number (zip subjects grade_values) = (c1, Inr ())"
      "committed c1 = committed c"
      "students (working c1) = students (working c)"
      "grades (working c1) = grades (working c) @ rows"
      "map (\<lambda>row. (fst (snd row), float_of_sql (snd (snd row)))) rows =
         zip subjects grade_values"
      "list_all (\<lambda>row. fst row = roll_number) rows"
      "in_transaction c1 = (in_transaction c \<or> zip subjects grade_values \<noteq> [])"
    by blast
  have res: "add_grades c roll_number subjects grade_values =
          (commit c1, True, ''Grades added successfully!'')"
    by (simp add: add_grades_def r(1))
  have len: "length rows = min (length subjects) (length grade_values)"
    using arg_cong[OF r(5), of length] by simp
  show ?thesis
  proof (cases "in_transaction c1")
    case True
    then have "committed (commit c1) = working c1" "working (commit c1) = working c1"
      by (simp_all add: commit_def)
    with res r len show ?thesis by (intro exI[of _ "commit c1"] exI[of _ rows]) simp
  next
    case False
    with r(7) have nt: "\<not> in_transaction c" and e: "zip subjects grade_values = []" by auto
    from r(1) have "c1 = c" unfolding e by simp
    moreover from nt assms(1) have "working c = committed c" by (simp add: wf_connection_def)
    moreover from r(5) have "rows = []" unfolding e by simp
    ultimately have "committed (commit c1) = working c" "working (commit c1) = working c"
      using False by (simp_all add: commit_def)
    with res r len \<open>rows = []\<close> show ?thesis
      by (intro exI[of _ "commit c1"] exI[of _ rows]) simp
  qed
qed

subsection \<open>Validation of the submitted grades\<close>

lemma float_le_range:
  "float_le (Finite 0) v \<and> float_le v (Finite 100) \<longleftrightarrow> in_range_0_100 v"
  by (cases v) (simp_all add: float_le_def)

lemma parse_grades_rejects:
  assumes "parse_grades py_float gs acc = Inl resp"
  shows "(\<exists>body. resp = Response body 400) \<and>
         (\<exists>g \<in> set gs. case py_float g of None \<Rightarrow> True | Some v \<Rightarrow> \<not> in_range_0_100 v)"
  using assms
proof (induction gs arbitrary: acc)
  case Nil
  then show ?case by simp
next
  case (Cons g gs)
  show ?case
  proof (cases "py_float g")
    case None
    with Cons.prems show ?thesis by auto
  next
    case (Some v)
    show ?thesis
    proof (cases "in_range_0_100 v")
      case True
      with Some Cons.prems have "parse_grades py_float gs (acc @ [v]) = Inl resp"
        using float_le_range[of v] by simp
      from Cons.IH[OF this] show ?thesis by auto
    next
      case False
      with Some Cons.prems show ?thesis
        using float_le_range[of v] by auto
    qed
  qed
qed

lemma parse_grades_accepts:
  assumes "parse_grades py_float gs acc = Inr vs"
  shows "list_all (\<lambda>g. case py_float g of None \<Rightarrow> False | Some v \<Rightarrow> in_range_0_100 v) gs \<and>
         map Some vs = map Some acc @ map py_float gs"
  using assms
proof (induction gs arbitrary: acc)
  case Nil
  then show ?case by simp
next
  case (Cons g gs)
  show ?case
  proof (cases "py_float g")
    case None
    with Cons.prems show ?thesis by simp
  next
    case (Some v)
    show ?thesis
    proof (cases "in_range_0_100 v")
      case True
      with Some Cons.prems have "parse_grades py_float gs (acc @ [v]) = Inr vs"
        using float_le_range[of v] by simp
      from Cons.IH[OF this] Some True show ?thesis by simp
    next
      case False
      with Some Cons.prems show ?thesis
        using float_le_range[of v] by auto
    qed
  qed
qed

text \<open>
  Claim C2, as amended. For a request whose \<^verbatim>\<open>roll_number\<close> field converts to the
  roll number of an existing student, the \<^verbatim>\<open>add_grades\<close> handler answers with status
  400 if and only if some submitted grade string does not convert to a float, or
  converts to a value that is not a number in the inclusive range from 0 to 100 (NaN is
  such a value). When it answers 400 the connection is exactly as it was before the
  request: the rejection comes before any insert.
\<close>

theorem add_grades_handler_rejects_iff:
  assumes "form_get f ''roll_number'' = Some roll_str"
    and "py_int roll_str = Some roll_number"
    and "get_student_by_roll c roll_number = Inr (Some name)"
  shows "((\<exists>body. snd (add_grades_handler py_int py_float c f) = Inr (Response body 400)) \<longleftrightarrow>
          (\<exists>g \<in> set (form_getlist f ''grade'').
             case py_float g of None \<Rightarrow> True | Some v \<Rightarrow> \<not> in_range_0_100 v)) \<and>
         ((\<exists>body. snd (add_grades_handler py_int py_float c f) = Inr (Response body 400)) \<longrightarrow>
          fst (add_grades_handler py_int py_float c f) = c)"
proof (cases "parse_grades py_float (form_getlist f ''grade'') []")
  case (Inl resp)
  from parse_grades_rejects[OF Inl] obtain body where
    b: "resp = Response body 400"
    and bad: "\<exists>g \<in> set (form_getlist f ''grade'').
             case py_float g of None \<Rightarrow> True | Some v \<Rightarrow> \<not> in_range_0_100 v"
    by blast
  have "add_grades_handler py_int py_float c f = (c, Inr (Response body 400))"
    using assms Inl b by (simp add: add_grades_handler_def)
  with bad show ?thesis by simp
next
  case (Inr vs)
  from parse_grades_accepts[OF Inr]
  have ok: "\<not> (\<exists>g \<in> set (form_getlist f ''grade'').
             case py_float g of None \<Rightarrow> True | Some v \<Rightarrow> \<not> in_range_0_100 v)"
    by (auto simp: list_all_iff split: option.splits)
  obtain c1 success message where
    ag: "add_grades c roll_number (form_getlist f ''subject'') vs = (c1, success, message)"
    by (cases "add_grades c roll_number (form_getlist f ''subject'') vs") auto
  have "snd (add_grades_handler py_int py_float c f) =
          (if success then Inr (Redirect ''/'') else Inr (Response message 500))"
    using assms Inr ag by (simp add: add_grades_handler_def)
  then have "\<not> (\<exists>body. snd (add_grades_handler py_int py_float c f) = Inr (Response body 400))"
    by simp
  with ok show ?thesis by simp
qed

theorem add_grades_handler_rejects_counterexample:
  "float_sample ''nan'' = Some NaN \<and>
   \<not> float_less NaN (Finite 0) \<and> \<not> float_less (Finite 100) NaN \<and>
   add_grades_handler int_sample float_sample example_students
     [(''roll_number'', ''1''), (''subject'', ''Math''), (''grade'', ''nan'')] =
     (example_students, Inr (Response ''Grades must be between 0 and 100.'' 400)) \<and>
   float_sample ''150'' = Some (Finite 150) \<and> float_less (Finite 100) (Finite 150) \<and>
   add_grades_handler int_sample float_sample example_students
     [(''roll_number'', ''99''), (''subject'', ''Math''), (''grade'', ''150'')] =
     (example_students, Inr (Response ''Student not found.'' 404))"
  by (simp add: add_grades_handler_def form_get_def form_getlist_def int_sample_def
      float_sample_def float_le_def float_less_def less_sqlreal_def get_student_by_roll_def
      bind_int_def in_int64_def example_students_eq)

theorem add_grades_handler_rejects_iff_witness:
  "form_get [(''roll_number'', ''1''), (''subject'', ''Math''), (''grade'', ''90''),
             (''subject'', ''Science''), (''grade'', ''150'')] ''roll_number'' = Some ''1'' \<and>
   int_sample ''1'' = Some 1 \<and>
   get_student_by_roll example_students 1 = Inr (Some ''Alice'') \<and>
   float_sample ''150'' = Some (Finite 150) \<and> \<not> in_range_0_100 (Finite 150) \<and>
   add_grades_handler int_sample float_sample example_students
     [(''roll_number'', ''1''), (''subject'', ''Math''), (''grade'', ''90''),
      (''subject'', ''Science''), (''grade'', ''150'')] =
     (example_students, Inr (Response ''Grades must be between 0 and 100.'' 400)) \<and>
   add_grades_handler int_sample float_sample example_students
     [(''roll_number'', ''1''), (''subject'', ''Math''), (''grade'', ''90''),
      (''subject'', ''Science''), (''grade'', ''80'')] =
     (example_grades, Inr (Redirect ''/''))"
proof -
  have h1: "form_get [(''roll_number'', ''1''), (''subject'', ''Math''), (''grade'', ''90''),
             (''subject'', ''Science''), (''grade'', ''150'')] ''roll_number'' = Some ''1''"
    by (simp add: form_get_def)
  have h2: "int_sample ''1'' = Some 1" by (simp add: int_sample_def)
  have h3: "get_student_by_roll example_students 1 = Inr (Some ''Alice'')"
    by (simp add: get_student_by_roll_def bind_int_def in_int64_def example_students_eq)
  have r: "add_grades_handler int_sample float_sample example_students
     [(''roll_number'', ''1''), (''subject'', ''Math''), (''grade'', ''90''),
      (''subject'', ''Science''), (''grade'', ''150'')] =
     (example_students, Inr (Response ''Grades must be between 0 and 100.'' 400))"
    using add_grades_handler_rejects_iff[where py_int = int_sample and py_float = float_sample,
        OF h1 h2 h3]
    by (simp add: add_grades_handler_def form_get_def form_getlist_def int_sample_def
        float_sample_def float_le_def h3)
  have a: "add_grades_handler int_sample float_sample example_students
     [(''roll_number'', ''1''), (''subject'', ''Math''), (''grade'', ''90''),
      (''subject'', ''Science''), (''grade'', ''80'')] =
     (example_grades, Inr (Redirect ''/''))"
    by (simp add: add_grades_handler_def form_get_def form_getlist_def int_sample_def
        float_sample_def float_le_def h3 example_grades_def add_grades_def insert_grade_def
        begin_transaction_def bind_int_def in_int64_def commit_def Let_def)
  show ?thesis using h1 h2 h3 r a by (simp add: float_sample_def)
qed

subsection \<open>Well-formedness is kept\<close>

lemma wf_connection_commit: "wf_connection c \<Longrightarrow> wf_connection (commit c)"
  by (auto simp: wf_connection_def commit_def)

lemma wf_connection_rollback: "wf_connection c \<Longrightarrow> wf_connection (rollback c)"
  by (auto simp: wf_connection_def rollback_def)

lemma wf_connection_insert_grade:
  "wf_connection c \<Longrightarrow> wf_connection (fst (insert_grade c r s g))"
  by (simp add: wf_connection_def wf_database_def insert_grade_def begin_transaction_def
      bind_int_def Let_def split: option.splits)

lemma wf_connection_insert_grades:
  "wf_connection c \<Longrightarrow> wf_connection (fst (insert_grades c r ps))"
proof (induction ps arbitrary: c)
  case Nil
  then show ?case by simp
next
  case (Cons p ps)
  obtain s g where p: "p = (s, g)" by (cases p)
  obtain c2 res where ig: "insert_grade c r s g = (c2, res)"
    by (cases "insert_grade c r s g")
  have wf2: "wf_connection c2"
    using wf_connection_insert_grade[OF Cons.prems, of r s g] ig by simp
  show ?case
  proof (cases res)
    case (Inl e)
    with p ig wf2 show ?thesis by simp
  next
    case (Inr u)
    with p ig Cons.IH[OF wf2] show ?thesis by simp
  qed
qed

lemma wf_connection_add_grades:
  assumes "wf_connection c"
  shows "wf_connection (fst (add_grades c r subjects grade_values))"
proof -
  obtain c1 res where run: "insert_grades c r (zip subjects grade_values) = (c1, res)"
    by (cases "insert_grades c r (zip subjects grade_values)")
  have "wf_connection c1"
    using wf_connection_insert_grades[OF assms, of r "zip subjects grade_values"] run
    by simp
  then show ?thesis
    by (cases res) (simp_all add: add_grades_def run wf_connection_commit wf_connection_rollback)
qed

subsection \<open>The order of the listing\<close>

lemma add_students_step:
  assumes "in_int64 r" and "r \<notin> set (map fst (students d))"
  shows "committed (fst (add_student (connect d) name r)) =
           d\<lparr>students := insort_key fst (r, name) (students d)\<rparr>"
  using add_student_success[of r "connect d" name] assms
  by (simp add: connect_def)

lemma add_students_invariant:
  assumes "wf_database d" and "distinct (map snd reqs)"
    and "list_all in_int64 (map snd reqs)"
    and "set (map snd reqs) \<inter> set (map fst (students d)) = {}"
  shows "wf_database (add_students d reqs) \<and>
         set (students (add_students d reqs)) =
           set (students d) \<union> set (map (\<lambda>req. (snd req, fst req)) reqs)"
  using assms
proof (induction reqs arbitrary: d)
  case Nil
  then show ?case by simp
next
  case (Cons req reqs)
  obtain name r where req: "req = (name, r)" by (cases req)
  from Cons.prems req have r: "in_int64 r" "r \<notin> set (map fst (students d))"
    by auto
  define d' where "d' = d\<lparr>students := insort_key fst (r, name) (students d)\<rparr>"
  have step: "add_students d (req # reqs) = add_students d' reqs"
    using add_students_step[OF r] by (simp add: req d'_def)
  have wf': "wf_database d'"
    unfolding d'_def using Cons.prems(1) r by (rule wf_database_insert_student)
  have st: "set (students d') = insert (r, name) (set (students d))"
    by (simp add: d'_def set_insort_key)
  have disj: "set (map snd reqs) \<inter> set (map fst (students d')) = {}"
    using Cons.prems(2,4) req st by auto
  from Cons.prems req have "distinct (map snd reqs)" "list_all in_int64 (map snd reqs)"
    by simp_all
  from Cons.IH[OF wf' this disj] show ?case
    using step st req by auto
qed

text \<open>
  Claim C8, as amended. In every well-formed store, after any sequence of
  \<^verbatim>\<open>add_student\<close> requests with new, pairwise different roll numbers in the signed
  64-bit range, \<^verbatim>\<open>get_all_students\<close> returns the \<open>(roll_number, name)\<close> pairs of all
  students, those of the store and the added ones, each once, in ascending order of
  the roll number, whatever the order of the requests was.
\<close>

theorem get_all_students_by_roll_number:
  assumes "wf_database d" and "distinct (map snd reqs)"
    and "list_all in_int64 (map snd reqs)"
    and "set (map snd reqs) \<inter> set (map fst (students d)) = {}"
  shows "get_all_students (connect (add_students d reqs)) =
           sort_key fst (students d @ map (\<lambda>req. (snd req, fst req)) reqs)"
proof -
  define xs where "xs = students (add_students d reqs)"
  define zs where "zs = students d @ map (\<lambda>req. (snd req, fst req)) reqs"
  define ys where "ys = sort_key fst zs"
  from add_students_invariant[OF assms]
  have wf: "wf_database (add_students d reqs)" and s: "set xs = set zs"
    by (simp_all add: xs_def zs_def)
  have keys: "map fst zs = map fst (students d) @ map snd reqs"
    by (simp add: zs_def comp_def)
  have "distinct (map fst (students d))"
    using assms(1) by (simp add: wf_database_def)
  with assms(2,4) have dz: "distinct (map fst zs)"
    unfolding keys by auto
  then have inj: "inj_on fst (set zs)" and "distinct zs"
    using distinct_map[of fst zs] by simp_all
  have sy: "set ys = set zs" by (simp add: ys_def)
  have "distinct ys" using \<open>distinct zs\<close> by (simp add: ys_def)
  with inj sy have dy: "distinct (map fst ys)"
    using distinct_map[of fst ys] by simp
  have "xs = ys"
  proof (rule map_sorted_distinct_set_unique[of fst])
    show "inj_on fst (set xs \<union> set ys)" using inj s sy by simp
    show "sorted (map fst xs)" "distinct (map fst xs)"
      using wf by (simp_all add: wf_database_def xs_def)
    show "sorted (map fst ys)" unfolding ys_def by (rule sorted_sort_key)
    show "distinct (map fst ys)" by (rule dy)
    show "set xs = set ys" using s sy by simp
  qed
  then show ?thesis by (simp add: get_all_students_def connect_def xs_def ys_def zs_def)
qed

theorem get_all_students_not_insertion_order_counterexample:
  "get_all_students (connect (add_students init_db [(''Bob'', 2), (''Alice'', 1)])) =
     [(1, ''Alice''), (2, ''Bob'')] \<and>
   get_all_students (connect (add_students init_db [(''Bob'', 2), (''Alice'', 1)])) \<noteq>
     [(2, ''Bob''), (1, ''Alice'')]"
  using example_students_eq
  by (simp add: example_students_def get_all_students_def)

theorem get_all_students_by_roll_number_witness:
  "wf_database init_db \<and>
   distinct (map snd [(''Bob'', 2::int), (''Alice'', 1)]) \<and>
   list_all in_int64 (map snd [(''Bob'', 2::int), (''Alice'', 1)]) \<and>
   set (map snd [(''Bob'', 2::int), (''Alice'', 1)]) \<inter> set (map fst (students init_db)) = {} \<and>
   get_all_students (connect (add_students init_db [(''Bob'', 2), (''Alice'', 1)])) =
     [(1, ''Alice''), (2, ''Bob'')]"
proof -
  have h1: "distinct (map snd [(''Bob'', 2::int), (''Alice'', 1)])" by simp
  have h2: "list_all in_int64 (map snd [(''Bob'', 2::int), (''Alice'', 1)])"
    by (simp add: in_int64_def)
  have h3: "set (map snd [(''Bob'', 2::int), (''Alice'', 1)]) \<inter>
              set (map fst (students init_db)) = {}"
    by (simp add: init_db_def)
  from get_all_students_by_roll_number[OF wf_database_init h1 h2 h3]
  have "get_all_students (connect (add_students init_db [(''Bob'', 2), (''Alice'', 1)])) =
     [(1, ''Alice''), (2, ''Bob'')]"
    by (simp add: init_db_def)
  with wf_database_init h1 h2 h3 show ?thesis by blast
qed

subsection \<open>Batches of unequal length\<close>

text \<open>
  Claim C9. For a call as the handler makes it and as the spec requires it (a
  well-formed store, the roll number of an existing student, every grade a number
  from 0 to 100), \<^verbatim>\<open>add_grades\<close> does not fail, whatever the lengths of the two lists:
  it returns success and commits, after the grade rows the connection saw before,
  exactly one row per pair of the zip of the two lists, in order, each with the given
  roll number, so \<open>min (length subjects) (length grades)\<close> rows; the excess of the longer
  list is ignored. The handler answers a request with these fields by the redirect.
\<close>

theorem add_grades_zip_truncates:
  assumes "wf_connection c"
    and "get_student_by_roll c roll_number = Inr (Some name)"
    and "list_all in_range_0_100 grade_values"
  shows "\<exists>c' rows. add_grades c roll_number subjects grade_values =
             (c', True, ''Grades added successfully!'') \<and>
           grades (committed c') = grades (working c) @ rows \<and>
           students (committed c') = students (working c) \<and>
           working c' = committed c' \<and>
           map (\<lambda>row. (fst (snd row), float_of_sql (snd (snd row)))) rows =
             zip subjects grade_values \<and>
           list_all (\<lambda>row. fst row = roll_number) rows \<and>
           length rows = min (length subjects) (length grade_values) \<and>
           (\<forall>py_int py_float f roll_str.
              form_get f ''roll_number'' = Some roll_str \<and>
              py_int roll_str = Some roll_number \<and>
              form_getlist f ''subject'' = subjects \<and>
              parse_grades py_float (form_getlist f ''grade'') [] = Inr grade_values \<longrightarrow>
              add_grades_handler py_int py_float c f = (c', Inr (Redirect ''/'')))"
proof -
  have r: "in_int64 roll_number"
    using assms(2) by (simp add: get_student_by_roll_def bind_int_def split: if_splits)
  have "\<not> in_range_0_100 NaN" by simp
  with assms(3) have n: "NaN \<notin> set grade_values"
    by (auto simp: list_all_iff)
  from add_grades_success[OF assms(1) r n, of subjects] obtain c' rows where
    ok: "add_grades c roll_number subjects grade_values =
           (c', True, ''Grades added successfully!'')"
    and rest: "grades (committed c') = grades (working c) @ rows"
      "students (committed c') = students (working c)"
      "working c' = committed c'"
      "map (\<lambda>row. (fst (snd row), float_of_sql (snd (snd row)))) rows =
         zip subjects grade_values"
      "list_all (\<lambda>row. fst row = roll_number) rows"
      "length rows = min (length subjects) (length grade_values)"
    by blast
  have "add_grades_handler py_int py_float c f = (c', Inr (Redirect ''/''))"
    if "form_get f ''roll_number'' = Some roll_str \<and>
        py_int roll_str = Some roll_number \<and>
        form_getlist f ''subject'' = subjects \<and>
        parse_grades py_float (form_getlist f ''grade'') [] = Inr grade_values"
    for py_int py_float f roll_str
    using that assms(2) ok by (simp add: add_grades_handler_def)
  with ok rest show ?thesis
    by (intro exI[of _ c'] exI[of _ rows]) blast
qed

theorem add_grades_zip_truncates_witness:
  "wf_connection example_students \<and>
   get_student_by_roll example_students 1 = Inr (Some ''Alice'') \<and>
   list_all in_range_0_100 [Finite 90, Finite 80] \<and>
   length [''Math''] \<noteq> length [Finite 90, Finite 80] \<and>
   add_grades example_students 1 [''Math''] [Finite 90, Finite 80] =
     (\<lparr>committed = \<lparr>students = [(1, ''Alice''), (2, ''Bob'')],
                    grades = [(1, ''Math'', SqlReal 90)]\<rparr>,
       working = \<lparr>students = [(1, ''Alice''), (2, ''Bob'')],
                  grades = [(1, ''Math'', SqlReal 90)]\<rparr>,
       in_transaction = False\<rparr>,
      True, ''Grades added successfully!'') \<and>
   add_grades_handler int_sample float_sample example_students
     [(''roll_number'', ''1''), (''subject'', ''Math''), (''grade'', ''90''),
      (''grade'', ''80'')] =
     (\<lparr>committed = \<lparr>students = [(1, ''Alice''), (2, ''Bob'')],
                    grades = [(1, ''Math'', SqlReal 90)]\<rparr>,
       working = \<lparr>students = [(1, ''Alice''), (2, ''Bob'')],
                  grades = [(1, ''Math'', SqlReal 90)]\<rparr>,
       in_transaction = False\<rparr>,
      Inr (Redirect ''/''))"
proof -
  have h2: "get_student_by_roll example_students 1 = Inr (Some ''Alice'')"
    by (simp add: get_student_by_roll_def bind_int_def in_int64_def example_students_eq)
  have h3: "list_all in_range_0_100 [Finite 90, Finite 80]" by simp
  have a: "add_grades example_students 1 [''Math''] [Finite 90, Finite 80] =
     (\<lparr>committed = \<lparr>students = [(1, ''Alice''), (2, ''Bob'')],
                    grades = [(1, ''Math'', SqlReal 90)]\<rparr>,
       working = \<lparr>students = [(1, ''Alice''), (2, ''Bob'')],
                  grades = [(1, ''Math'', SqlReal 90)]\<rparr>,
       in_transaction = False\<rparr>,
      True, ''Grades added successfully!'')"
    using add_grades_zip_truncates[OF wf_example_students h2 h3, of "[''Math'']"]
    by (simp add: example_students_eq add_grades_def insert_grade_def
      begin_transaction_def bind_int_def in_int64_def commit_def Let_def)
  have b: "add_grades_handler int_sample float_sample example_students
     [(''roll_number'', ''1''), (''subject'', ''Math''), (''grade'', ''90''),
      (''grade'', ''80'')] =
     (\<lparr>committed = \<lparr>students = [(1, ''Alice''), (2, ''Bob'')],
                    grades = [(1, ''Math'', SqlReal 90)]\<rparr>,
       working = \<lparr>students = [(1, ''Alice''), (2, ''Bob'')],
                  grades = [(1, ''Math'', SqlReal 90)]\<rparr>,
       in_transaction = False\<rparr>,
      Inr (Redirect ''/''))"
    using a h2
    by (simp add: add_grades_handler_def form_get_def form_getlist_def int_sample_def
        float_sample_def float_le_def)
  from wf_example_students h2 h3 a b show ?thesis by simp
qed

end
